theory Spec2Isabelle
  imports Complex_Main "HOL-Library.List_Lexorder" "HOL-Library.Char_ord" "HOL-Library.Multiset"
begin

section \<open>Errors\<close>

text \<open>
  The Python exceptions that the modelled functions can raise. A raising call is a
  result \<open>Inl e\<close>; a returning call is \<open>Inr v\<close>.
\<close>

datatype error = KeyError | ValueError | ConnectionError | OSError

section \<open>The data registry (\<open>histolab/data/_registry.py\<close>)\<close>

text \<open>
  The module holds three dictionaries and one list. A dictionary literal is an
  association list in the order of the source; lookup is \<open>map_of\<close>.
\<close>

definition legacy_datasets :: "string list" where
  "legacy_datasets = [''cmu_small_region.svs'']"

definition registry :: "(string \<times> string) list" where
  "registry =
    [(''histolab/broken.svs'', ''b1325916876afa17ad5e02d2e7298ee883e758ed25369470d85bc0990e928e11''),
     (''histolab/kidney.png'', ''5c6dc1b9ae10a2865302d9c8eda360362ec47732cb3e9766c38ed90cb9f4c371''),
     (''data/cmu_small_region.svs'', ''ed92d5a9f2e86df67640d6f92ce3e231419ce127131697fbbce42ad5e002c8a7''),
     (''aperio/JP2K-33003-1.svs'', ''6205ccf75a8fa6c32df7c5c04b7377398971a490fb6b320d50d91f7ba6a0e6fd''),
     (''aperio/JP2K-33003-2.svs'', ''1a13cef86b55b51127cebd94a1f6069f7de494c98e3e708640d1ce7181d9e3fd''),
     (''tcga/breast/TCGA-A8-A082-01A-01-TS1.3cad4a77-47a6-4658-becf-d8cffa161d3a.svs'',
        ''e955f47b83c8a5ae382ff8559493548f90f85c17c86315dd03134c041f44df70''),
     (''tcga/breast/TCGA-A1-A0SH-01Z-00-DX1.90E71B08-E1D9-4FC2-85AC-062E56DDF17C.svs'',
        ''6de90fe92400e592839ab7f87c15d9924bc539c61ee3b3bc8ef044f98d16031b''),
     (''tcga/breast/31e248bf-ee24-4d18-bccb-47046fccb461'',
        ''95163831d9076bb5e5b21790933dee9535a3607ba35bd6ae425374a45ecb1ba6''),
     (''tcga/prostate/6b725022-f1d5-4672-8c6c-de8140345210'',
        ''305c80e28227b25fdd0cc24726da4cf038380b4326e25c6518ffe23051a25ac0''),
     (''tcga/ovarian/b777ec99-2811-4aa4-9568-13f68e380c86'',
        ''f8e5059a0c9f8c026cfb2613cddef6562f8cdbd5954580282e2afa41d2f86a8c''),
     (''9798433/?format=tif'', ''7db49ff9fc3f6022ae334cf019e94ef4450f7d4cf0d71783e0f6ea82965d3a52''),
     (''9798554/?format=tif'', ''8a4318ac713b4cf50c3314760da41ab7653e10e90531ecd0c787f1386857a4ef'')]"

definition APERIO_REPO_URL :: string where
  "APERIO_REPO_URL = ''http://openslide.cs.cmu.edu/download/openslide-testdata/Aperio''"

definition TCGA_REPO_URL :: string where
  "TCGA_REPO_URL = ''https://api.gdc.cancer.gov/data''"

definition IDR_REPO_URL :: string where
  "IDR_REPO_URL = ''https://idr.openmicroscopy.org/webclient/render_image_download''"

definition registry_urls :: "(string \<times> string) list" where
  "registry_urls =
    [(''histolab/broken.svs'',
        ''https://raw.githubusercontent.com/histolab/histolab/master/tests/fixtures/svs-images/broken.svs''),
     (''histolab/kidney.png'',
        ''https://user-images.githubusercontent.com/4196091/100275351-132cc880-2f60-11eb-8cc8-7a3bf3723260.png''),
     (''aperio/JP2K-33003-1.svs'', APERIO_REPO_URL @ ''/JP2K-33003-1.svs''),
     (''aperio/JP2K-33003-2.svs'', APERIO_REPO_URL @ ''/JP2K-33003-2.svs''),
     (''tcga/breast/TCGA-A8-A082-01A-01-TS1.3cad4a77-47a6-4658-becf-d8cffa161d3a.svs'',
        TCGA_REPO_URL @ ''/ad9ed74a-2725-49e6-bf7a-ef100e299989''),
     (''tcga/breast/TCGA-A1-A0SH-01Z-00-DX1.90E71B08-E1D9-4FC2-85AC-062E56DDF17C.svs'',
        TCGA_REPO_URL @ ''/3845b8bd-cbe0-49cf-a418-a8120f6c23db''),
     (''tcga/breast/31e248bf-ee24-4d18-bccb-47046fccb461'',
        TCGA_REPO_URL @ ''/31e248bf-ee24-4d18-bccb-47046fccb461''),
     (''tcga/prostate/6b725022-f1d5-4672-8c6c-de8140345210'',
        TCGA_REPO_URL @ ''/6b725022-f1d5-4672-8c6c-de8140345210''),
     (''tcga/ovarian/b777ec99-2811-4aa4-9568-13f68e380c86'',
        TCGA_REPO_URL @ ''/b777ec99-2811-4aa4-9568-13f68e380c86''),
     (''9798433/?format=tif'', IDR_REPO_URL @ ''/9798433/?format=tif''),
     (''9798554/?format=tif'', IDR_REPO_URL @ ''/9798554/?format=tif'')]"

text \<open>
  \<open>registry[k]\<close> raises \<open>KeyError\<close> on a missing key.
\<close>

definition getitem :: "(string \<times> string) list \<Rightarrow> string \<Rightarrow> error + string" where
  "getitem d k = (case map_of d k of None \<Rightarrow> Inl KeyError | Some v \<Rightarrow> Inr v)"

text \<open>
  The dictionary comprehension
  \<^verbatim>\<open>{("data/" + filename): registry["data/" + filename] for filename in legacy_datasets}\<close>:
  one entry per filename, in order; the first missing key aborts the module with
  \<open>KeyError\<close>.
\<close>

fun legacy_comprehension :: "string list \<Rightarrow> error + (string \<times> string) list" where
  "legacy_comprehension [] = Inr []"
| "legacy_comprehension (filename # rest) =
     (case getitem registry (''data/'' @ filename) of
        Inl e \<Rightarrow> Inl e
      | Inr h \<Rightarrow>
          (case legacy_comprehension rest of
             Inl e \<Rightarrow> Inl e
           | Inr d \<Rightarrow> Inr ((''data/'' @ filename, h) # d)))"

definition legacy_registry :: "error + (string \<times> string) list" where
  "legacy_registry = legacy_comprehension legacy_datasets"

section \<open>Tables (\<open>pandas.DataFrame\<close>)\<close>

text \<open>
  A row maps a column name to its cell; \<open>None\<close> is the null cell (\<open>NaN\<close>). Cells are
  strings, as they are for the identifier and label columns that the pipeline reads.
  A table is its list of column names and its rows in order.
\<close>

type_synonym row = "string \<Rightarrow> string option"

record dataframe =
  columns :: "string list"
  rows :: "row list"

definition cell :: "row \<Rightarrow> string \<Rightarrow> string option" where
  "cell r c = r c"

text \<open>
  \<open>Series.isin(values)\<close> on one cell. The values are patient identifiers taken from
  group keys, which are never null, so a null cell is not among them.
\<close>

definition isin :: "string option \<Rightarrow> string list \<Rightarrow> bool" where
  "isin v vals = (case v of None \<Rightarrow> False | Some x \<Rightarrow> x \<in> set vals)"

text \<open>\<^verbatim>\<open>df.loc[df[c].isin(vals)]\<close>: the rows whose cell in column \<open>c\<close> is among \<open>vals\<close>.\<close>

definition loc_isin :: "dataframe \<Rightarrow> string \<Rightarrow> string list \<Rightarrow> dataframe" where
  "loc_isin df c vals = df\<lparr>rows := filter (\<lambda>r. isin (cell r c) vals) (rows df)\<rparr>"

text \<open>
  The keys of \<open>df.groupby(c)\<close>: the distinct non-null values of column \<open>c\<close>, sorted
  (\<open>groupby\<close> drops null keys and sorts the keys by default).
\<close>

definition groupby_keys :: "dataframe \<Rightarrow> string \<Rightarrow> string list" where
  "groupby_keys df c = sort (remdups (List.map_filter (\<lambda>r. cell r c) (rows df)))"

section \<open>The seeded generator and \<open>train_test_split\<close>\<close>

text \<open>
  The random generator belongs to numpy and the float arithmetic to the interpreter,
  both outside the repository; they are parameters. \<open>RandomState s\<close> is the
  generator seeded with \<open>s\<close>, \<open>permutation g n\<close> is \<open>g.permutation(n)\<close>, and
  \<open>randint g low high\<close> is one draw of \<open>randint(low, high)\<close> with the generator's
  next state. A float is the rational that it denotes, and \<open>ceil_mul t n\<close> is
  \<open>ceil(t * n)\<close> with the product computed and rounded in floating point.
\<close>

record 'g externals =
  RandomState :: "int \<Rightarrow> 'g"
  permutation :: "'g \<Rightarrow> nat \<Rightarrow> nat list"
  randint :: "'g \<Rightarrow> int \<Rightarrow> int \<Rightarrow> int \<times> 'g"
  ceil_mul :: "rat \<Rightarrow> nat \<Rightarrow> nat"

text \<open>The generator's contract: \<open>permutation n\<close> is a permutation of \<open>range(n)\<close>.\<close>

definition permutation_ok :: "'g externals \<Rightarrow> bool" where
  "permutation_ok np =
     (\<forall>g n. distinct (permutation np g n) \<and> set (permutation np g n) = {0..<n})"

text \<open>The generator's contract: \<open>randint(low, high)\<close> lies in \<open>[low, high)\<close>.\<close>

definition randint_ok :: "'g externals \<Rightarrow> bool" where
  "randint_ok np =
     (\<forall>g low high. low < high \<longrightarrow>
        low \<le> fst (randint np g low high) \<and> fst (randint np g low high) < high)"

text \<open>
  The float contract: a product with 0 or 1 is exact, so for a fraction \<open>t\<close> strictly
  between 0 and 1, \<open>ceil(t * 0)\<close> is 0 and \<open>ceil(t * 1)\<close> is 1.
\<close>

definition ceil_mul_ok :: "'g externals \<Rightarrow> bool" where
  "ceil_mul_ok np =
     (\<forall>t. 0 < t \<and> t < 1 \<longrightarrow> ceil_mul np t 0 = 0 \<and> ceil_mul np t 1 = 1)"

text \<open>
  \<open>check_random_state\<close>: an integer seed gives a fresh generator seeded with it, and
  a seed outside \<open>[0, 2**32 - 1]\<close> is a \<open>ValueError\<close>; \<open>None\<close> gives the
  process-wide generator.
\<close>

definition check_random_state ::
  "'g externals \<Rightarrow> 'g \<Rightarrow> int option \<Rightarrow> error + 'g" where
  "check_random_state np global random_state =
     (case random_state of
        None \<Rightarrow> Inr global
      | Some s \<Rightarrow> if 0 \<le> s \<and> s < 2 ^ 32 then Inr (RandomState np s) else Inl ValueError)"

text \<open>
  \<open>sklearn.model_selection.train_test_split(arr, test_size=t, random_state=s)\<close> as the
  source calls it: a float \<open>test_size\<close>, no \<open>train_size\<close>, no \<open>stratify\<close>, shuffling
  on. The test size must lie strictly between 0 and 1; \<open>n_test\<close> is \<open>ceil(t * n)\<close>
  in floating point, \<open>n_train\<close> is the rest, and an empty train set is a
  \<open>ValueError\<close>. Then the generator is made from \<open>random_state\<close>. The first
  \<open>n_test\<close> indices of its permutation are the test part, the next \<open>n_train\<close> the
  train part.
\<close>

definition train_test_split ::
  "'g externals \<Rightarrow> 'g \<Rightarrow> 'a list \<Rightarrow> rat \<Rightarrow> int option
   \<Rightarrow> error + ('a list \<times> 'a list)" where
  "train_test_split np global arr test_size random_state =
     (let n_samples = length arr in
      if test_size \<le> 0 \<or> test_size \<ge> 1 then Inl ValueError
      else
        let n_test = ceil_mul np test_size n_samples;
            n_train = int n_samples - int n_test
        in if n_train = 0 then Inl ValueError
           else
             case check_random_state np global random_state of
               Inl e \<Rightarrow> Inl e
             | Inr rng \<Rightarrow>
                 let perm = permutation np rng n_samples;
                     ind_test = take n_test perm;
                     ind_train = take (nat n_train) (drop n_test perm)
                 in Inr (map (\<lambda>i. arr ! i) ind_train, map (\<lambda>i. arr ! i) ind_test))"

section \<open>The patient-wise splitter (\<open>train_test_df_patient_wise\<close>)\<close>

text \<open>\<open>Series.unique()\<close>: the distinct values in order of first appearance.\<close>

definition unique :: "'a list \<Rightarrow> 'a list" where
  "unique xs = rev (remdups (rev xs))"

text \<open>
  \<^verbatim>\<open>dataset_df.groupby(patient_col)[label_col].unique().apply(list)\<close>: for every
  patient key, the distinct labels of its rows in order of first appearance (a null
  label is one of the values).
\<close>

definition patient_with_labels ::
  "dataframe \<Rightarrow> string \<Rightarrow> string \<Rightarrow> (string \<times> string option list) list" where
  "patient_with_labels dataset_df patient_col label_col =
     map (\<lambda>p. (p, unique (map (\<lambda>r. cell r label_col)
                      (filter (\<lambda>r. cell r patient_col = Some p) (rows dataset_df)))))
         (groupby_keys dataset_df patient_col)"

text \<open>
  A missing patient or label column is a \<open>KeyError\<close>. Only the index of
  \<open>patient_with_labels\<close> is used: the split is called on the patient identifiers,
  with the seed as its \<open>random_state\<close>.
\<close>

definition train_test_df_patient_wise ::
  "'g externals \<Rightarrow> 'g \<Rightarrow> dataframe \<Rightarrow> string \<Rightarrow> string \<Rightarrow> rat \<Rightarrow> int
   \<Rightarrow> error + (dataframe \<times> dataframe)" where
  "train_test_df_patient_wise np global dataset_df patient_col label_col test_size seed =
     (if patient_col \<notin> set (columns dataset_df) \<or> label_col \<notin> set (columns dataset_df)
      then Inl KeyError
      else
        let unique_patients = map fst (patient_with_labels dataset_df patient_col label_col)
        in case train_test_split np global unique_patients test_size (Some seed) of
             Inl e \<Rightarrow> Inl e
           | Inr (train_patients, test_patients) \<Rightarrow>
               Inr (loc_isin dataset_df patient_col train_patients,
                    loc_isin dataset_df patient_col test_patients))"

text \<open>\<open>df[patient_col]\<close>: the cells of one column, row by row.\<close>

definition column_of :: "dataframe \<Rightarrow> string \<Rightarrow> string option list" where
  "column_of df c = map (\<lambda>r. cell r c) (rows df)"

text \<open>The patient identifiers that occur in the rows of a table.\<close>

definition patient_ids :: "dataframe \<Rightarrow> string \<Rightarrow> string set" where
  "patient_ids df patient_col = {p. \<exists>r \<in> set (rows df). cell r patient_col = Some p}"

text \<open>
  One column of a result: that column of the train table and of the test table, or
  the error raised. For the patient column this is the patient assignment.
\<close>

definition result_column ::
  "string \<Rightarrow> error + (dataframe \<times> dataframe)
   \<Rightarrow> error + (string option list \<times> string option list)" where
  "result_column c res =
     (case res of
        Inl e \<Rightarrow> Inl e
      | Inr (train_df, test_df) \<Rightarrow> Inr (column_of train_df c, column_of test_df c))"

section \<open>The metadata join (\<open>split_tiles_patient_wise\<close>)\<close>

text \<open>
  \<open>os.path.splitext(f)[1]\<close> for a directory entry (no path separator): the suffix from
  the last dot on, provided some character before that dot is not a dot; otherwise
  the empty string.
\<close>

definition splitext_ext :: "string \<Rightarrow> string" where
  "splitext_ext p =
     (let r = rev p;
          suf = takeWhile (\<lambda>c. c \<noteq> CHR ''.'') r
      in case dropWhile (\<lambda>c. c \<noteq> CHR ''.'') r of
           [] \<Rightarrow> []
         | d # pre \<Rightarrow> if list_ex (\<lambda>c. c \<noteq> CHR ''.'') pre then d # rev suf else [])"

text \<open>\<open>s.split(sep)\<close> for a one-character separator.\<close>

fun split_chr :: "char \<Rightarrow> string \<Rightarrow> string list" where
  "split_chr sep [] = [] # []"
| "split_chr sep (c # cs) =
     (if c = sep then [] # split_chr sep cs
      else (case split_chr sep cs of
              [] \<Rightarrow> [c] # []
            | p # ps \<Rightarrow> (c # p) # ps))"

text \<open>\<open>f.split("_")[0]\<close>: the sample id derived from a tile filename.\<close>

definition sample_id_of :: "string \<Rightarrow> string" where
  "sample_id_of f = hd (split_chr (CHR ''_'') f)"

text \<open>
  The two-column table of tile filenames: the \<open>.png\<close> entries of the directory
  listing, each with its derived sample id.
\<close>

definition tiles_filenames_df :: "string list \<Rightarrow> (string \<times> string) list" where
  "tiles_filenames_df listing =
     map (\<lambda>f. (f, sample_id_of f)) (filter (\<lambda>f. splitext_ext f = ''.png'') listing)"

text \<open>
  \<^verbatim>\<open>metadata_df.join(tiles_filenames_df.set_index("Tissue Sample ID"), on="Tissue Sample ID")\<close>:
  a left join with the metadata on the left. A metadata row with no matching tile is
  kept once with a null \<open>tile_filename\<close>; a row with matches is repeated once per
  match. A tile whose sample id matches no metadata row contributes nothing.
\<close>

definition join_row :: "row \<Rightarrow> (string \<times> string) list \<Rightarrow> row list" where
  "join_row r tiles =
     (case filter (\<lambda>(f, sid). cell r ''Tissue Sample ID'' = Some sid) tiles of
        [] \<Rightarrow> [r(''tile_filename'' := None)]
      | ms \<Rightarrow> map (\<lambda>(f, sid). r(''tile_filename'' \<mapsto> f)) ms)"

definition join_tiles :: "dataframe \<Rightarrow> (string \<times> string) list \<Rightarrow> error + dataframe" where
  "join_tiles metadata_df tiles =
     (if ''Tissue Sample ID'' \<notin> set (columns metadata_df) then Inl KeyError
      else if ''tile_filename'' \<in> set (columns metadata_df) then Inl ValueError
      else Inr \<lparr>columns = columns metadata_df @ [''tile_filename''],
                rows = concat (map (\<lambda>r. join_row r tiles) (rows metadata_df))\<rparr>)"

text \<open>
  The tile files of a listing that match a metadata row: the \<open>.png\<close> entries whose
  derived sample id is the row's sample id.
\<close>

definition matching_tiles :: "row \<Rightarrow> string list \<Rightarrow> string list" where
  "matching_tiles r listing =
     filter (\<lambda>f. splitext_ext f = ''.png''
                 \<and> cell r ''Tissue Sample ID'' = Some (sample_id_of f)) listing"

text \<open>
  \<open>split_tiles_patient_wise\<close>: \<open>listing\<close> is \<open>os.listdir(tiles_dir)\<close>; the result is
  the pair of tables written to the train and test CSV files.
\<close>

definition split_tiles_patient_wise ::
  "'g externals \<Rightarrow> 'g \<Rightarrow> string list \<Rightarrow> dataframe \<Rightarrow> string \<Rightarrow> string \<Rightarrow> rat \<Rightarrow> int
   \<Rightarrow> error + (dataframe \<times> dataframe)" where
  "split_tiles_patient_wise np global listing metadata_df label_col patient_col test_size seed =
     (case join_tiles metadata_df (tiles_filenames_df listing) of
        Inl e \<Rightarrow> Inl e
      | Inr tiles_metadata \<Rightarrow>
          train_test_df_patient_wise np global tiles_metadata patient_col label_col
            test_size seed)"

text \<open>
  The orchestrator's prefix (\<^verbatim>\<open>prefix = f"{slide.name}_"\<close>) and a tile filename
  built from it; \<open>rest\<close> is what the tiler appends to the prefix.
\<close>

definition tile_prefix :: "string \<Rightarrow> string" where
  "tile_prefix slide_name = slide_name @ ''_''"

definition tile_filename_of :: "string \<Rightarrow> string \<Rightarrow> string" where
  "tile_filename_of slide_name rest = tile_prefix slide_name @ rest"

section \<open>The retriever (\<open>download_wsi_gtex\<close>)\<close>

text \<open>
  The effects of the retriever are a trace of events. A file is either an entry of
  the target directory, known by its entry name, or a file elsewhere (in a
  subdirectory, or outside the directory). The world is the contents of the files,
  the process-wide generator and the trace. The remote store is a function from URL
  to contents, \<open>None\<close> where the request raises.
\<close>

datatype file_id = Entry string | Elsewhere string

datatype event = Get string | Write file_id string | Sleep int

record 'g world =
  files :: "file_id \<Rightarrow> string option"
  rng :: 'g
  trace :: "event list"

text \<open>\<open>os.listdir(dataset_dir)\<close>: the names of the entries of the target directory.\<close>

definition listdir :: "'g world \<Rightarrow> string set" where
  "listdir w = {name. files w (Entry name) \<noteq> None}"

text \<open>
  Path resolution belongs to the operating system; it is a parameter. For a name
  \<open>n\<close>, \<open>resolve n\<close> is the file that \<open>open(os.path.join(dataset_dir, n), "wb")\<close>
  opens, or \<open>None\<close> where \<open>open\<close> raises. The name need not be an entry name:
  \<open>./a.svs\<close> is the entry \<open>a.svs\<close>.
\<close>

type_synonym path_resolution = "string \<Rightarrow> file_id option"

definition URL_ROOT :: string where
  "URL_ROOT = ''https://brd.nci.nih.gov/brd/imagedownload''"

text \<open>
  The loop: the membership test is on the literal name \<open>{sample_id}.svs\<close> in the
  listing, the write goes to the file that the joined path resolves to. A request or
  an \<open>open\<close> that raises ends the run.
\<close>

fun download_wsi_gtex ::
  "'g externals \<Rightarrow> (string \<Rightarrow> string option) \<Rightarrow> path_resolution \<Rightarrow> 'g world \<Rightarrow> string list
   \<Rightarrow> 'g world \<times> error option" where
  "download_wsi_gtex np net resolve w [] = (w, None)"
| "download_wsi_gtex np net resolve w (sample_id # sample_ids) =
     (if sample_id @ ''.svs'' \<in> listdir w
      then download_wsi_gtex np net resolve w sample_ids
      else
        let url = URL_ROOT @ ''/'' @ sample_id;
            w1 = w\<lparr>trace := trace w @ [Get url]\<rparr>
        in case net url of
             None \<Rightarrow> (w1, Some ConnectionError)
           | Some content \<Rightarrow>
               (case resolve (sample_id @ ''.svs'') of
                  None \<Rightarrow> (w1, Some OSError)
                | Some output_file \<Rightarrow>
                    let w2 = w1\<lparr>files := (files w1)(output_file \<mapsto> content),
                                trace := trace w1 @ [Write output_file content]\<rparr>;
                        (d, g) = randint np (rng w2) 60 100;
                        w3 = w2\<lparr>rng := g, trace := trace w2 @ [Sleep d]\<rparr>
                    in download_wsi_gtex np net resolve w3 sample_ids))"

text \<open>The events that a run from world \<open>w\<close> to world \<open>w'\<close> added to the trace.\<close>

definition new_events :: "'g world \<Rightarrow> 'g world \<Rightarrow> event list" where
  "new_events w w' = drop (length (trace w)) (trace w')"

text \<open>The delays slept during a run.\<close>

fun delays :: "event list \<Rightarrow> int list" where
  "delays [] = []"
| "delays (Sleep d # es) = d # delays es"
| "delays (e # es) = delays es"

text \<open>
  A trace is well paced when it is a sequence of completed fetches, each a request, the
  write of its file and then a delay between 60 and 100, possibly ended by one request
  after which the run raised.
\<close>

fun well_paced :: "event list \<Rightarrow> bool" where
  "well_paced [] = True"
| "well_paced [Get u] = True"
| "well_paced (Get u # Write n c # Sleep d # es) = (60 \<le> d \<and> d \<le> 100 \<and> well_paced es)"
| "well_paced es = False"

section \<open>Example inputs\<close>

text \<open>
  Concrete externals that meet the contracts: an even generator state permutes by
  the identity, an odd one by reversal; a draw is the state reduced into the range;
  the ceiling is taken of the exact product, which is the float result wherever the
  product is a float, as it is for the fraction \<open>1/2\<close> of the examples.
\<close>

definition example_generator :: "nat externals" where
  "example_generator =
     \<lparr>RandomState = (\<lambda>s. nat \<bar>s\<bar>),
      permutation = (\<lambda>g n. if even g then [0..<n] else rev [0..<n]),
      randint = (\<lambda>g low high. (low + int g mod (high - low), Suc g)),
      ceil_mul = (\<lambda>t n. nat (ceiling (t * of_nat n)))\<rparr>"

text \<open>A metadata row with sample id, patient id (\<open>Subject ID\<close>) and label (\<open>Tissue\<close>).\<close>

definition example_row :: "string \<Rightarrow> string option \<Rightarrow> string \<Rightarrow> row" where
  "example_row sid pid label =
     (\<lambda>c. if c = ''Tissue Sample ID'' then Some sid
          else if c = ''Subject ID'' then pid
          else if c = ''Tissue'' then Some label
          else None)"

definition example_columns :: "string list" where
  "example_columns = [''Tissue Sample ID'', ''Subject ID'', ''Tissue'']"

text \<open>Four samples of two patients, two samples each.\<close>

definition example_df :: dataframe where
  "example_df =
     \<lparr>columns = example_columns,
      rows = [example_row ''S1'' (Some ''P1'') ''Lung'',
              example_row ''S2'' (Some ''P1'') ''Lung'',
              example_row ''S3'' (Some ''P2'') ''Skin'',
              example_row ''S4'' (Some ''P2'') ''Skin'']\<rparr>"

definition example_train :: dataframe where
  "example_train =
     example_df\<lparr>rows := [example_row ''S3'' (Some ''P2'') ''Skin'',
                          example_row ''S4'' (Some ''P2'') ''Skin'']\<rparr>"

definition example_test :: dataframe where
  "example_test =
     example_df\<lparr>rows := [example_row ''S1'' (Some ''P1'') ''Lung'',
                          example_row ''S2'' (Some ''P1'') ''Lung'']\<rparr>"

text \<open>Two patients and a third row whose patient cell is null.\<close>

definition example_df_null :: dataframe where
  "example_df_null =
     \<lparr>columns = example_columns,
      rows = [example_row ''S1'' (Some ''P1'') ''Lung'',
              example_row ''S2'' (Some ''P2'') ''Skin'',
              example_row ''S3'' None ''Skin'']\<rparr>"

definition example_null_train :: dataframe where
  "example_null_train = example_df_null\<lparr>rows := [example_row ''S2'' (Some ''P2'') ''Skin'']\<rparr>"

definition example_null_test :: dataframe where
  "example_null_test = example_df_null\<lparr>rows := [example_row ''S1'' (Some ''P1'') ''Lung'']\<rparr>"

text \<open>
  A remote store that answers every request; a path resolution for a directory
  without subdirectories, where a leading \<open>./\<close> is dropped, any other name with a
  separator cannot be opened and a plain name is its own entry; and three target
  directories.
\<close>

definition example_net :: "string \<Rightarrow> string option" where
  "example_net url = Some (''bytes of '' @ url)"

definition example_resolve :: path_resolution where
  "example_resolve name =
     (if take 2 name = ''./'' \<and> CHR ''/'' \<notin> set (drop 2 name) then Some (Entry (drop 2 name))
      else if CHR ''/'' \<in> set name then None
      else Some (Entry name))"

definition example_world_empty :: "nat world" where
  "example_world_empty = \<lparr>files = Map.empty, rng = 5, trace = []\<rparr>"

definition example_world_present :: "nat world" where
  "example_world_present = \<lparr>files = [Entry ''A.svs'' \<mapsto> ''old''], rng = 5, trace = []\<rparr>"

definition example_world_alias :: "nat world" where
  "example_world_alias = \<lparr>files = [Entry ''a.svs'' \<mapsto> ''old''], rng = 5, trace = []\<rparr>"

text \<open>
  A tiles directory with two tiles of sample \<open>S1\<close> and a file that is not a tile, and
  the join of \<open>example_df\<close> with it.
\<close>

definition example_listing :: "string list" where
  "example_listing = [''S1_0.png'', ''S1_1.png'', ''notes.txt'']"

definition example_joined :: dataframe where
  "example_joined =
     \<lparr>columns = example_columns @ [''tile_filename''],
      rows = [(example_row ''S1'' (Some ''P1'') ''Lung'')(''tile_filename'' \<mapsto> ''S1_0.png''),
              (example_row ''S1'' (Some ''P1'') ''Lung'')(''tile_filename'' \<mapsto> ''S1_1.png''),
              (example_row ''S2'' (Some ''P1'') ''Lung'')(''tile_filename'' := None),
              (example_row ''S3'' (Some ''P2'') ''Skin'')(''tile_filename'' := None),
              (example_row ''S4'' (Some ''P2'') ''Skin'')(''tile_filename'' := None)]\<rparr>"

definition example_joined_train :: dataframe where
  "example_joined_train =
     example_joined
       \<lparr>rows := [(example_row ''S3'' (Some ''P2'') ''Skin'')(''tile_filename'' := None),
                 (example_row ''S4'' (Some ''P2'') ''Skin'')(''tile_filename'' := None)]\<rparr>"

definition example_joined_test :: dataframe where
  "example_joined_test =
     example_joined
       \<lparr>rows := [(example_row ''S1'' (Some ''P1'') ''Lung'')(''tile_filename'' \<mapsto> ''S1_0.png''),
                 (example_row ''S1'' (Some ''P1'') ''Lung'')(''tile_filename'' \<mapsto> ''S1_1.png''),
                 (example_row ''S2'' (Some ''P1'') ''Lung'')(''tile_filename'' := None)]\<rparr>"

text \<open>A single patient with two samples.\<close>

definition example_df_single :: dataframe where
  "example_df_single =
     \<lparr>columns = example_columns,
      rows = [example_row ''S1'' (Some ''P1'') ''Lung'',
              example_row ''S2'' (Some ''P1'') ''Skin'']\<rparr>"

section \<open>Registry consistency\<close>

text \<open>
  C10. Every key of \<open>registry_urls\<close> is a key of \<open>registry\<close>, the module-level
  comprehension that builds \<open>legacy_registry\<close> does not raise, and for every filename
  of \<open>legacy_datasets\<close> the entry \<open>'data/' + filename\<close> of \<open>legacy_registry\<close> is the
  hash that \<open>registry\<close> holds for that key.
\<close>

theorem registry_consistency:
  "(\<forall>k \<in> set (map fst registry_urls). \<exists>h. getitem registry k = Inr h)
   \<and> (\<exists>d. legacy_registry = Inr d
        \<and> (\<forall>filename \<in> set legacy_datasets.
              \<exists>h. getitem d (''data/'' @ filename) = Inr h
                \<and> getitem registry (''data/'' @ filename) = Inr h))"
  by (simp add: registry_urls_def registry_def legacy_registry_def legacy_datasets_def
      getitem_def)

theorem registry_consistency_witness:
  "getitem registry ''histolab/kidney.png''
     = Inr ''5c6dc1b9ae10a2865302d9c8eda360362ec47732cb3e9766c38ed90cb9f4c371''
   \<and> legacy_registry
     = Inr [(''data/cmu_small_region.svs'',
             ''ed92d5a9f2e86df67640d6f92ce3e231419ce127131697fbbce42ad5e002c8a7'')]"
  using registry_consistency
  by (simp add: registry_def legacy_registry_def legacy_datasets_def getitem_def)

section \<open>Facts about the generator, the group keys and the split\<close>

lemma example_generator_permutation_ok: "permutation_ok example_generator"
  by (simp add: permutation_ok_def example_generator_def)

lemma example_generator_randint_ok: "randint_ok example_generator"
proof -
  have "low + int g mod (high - low) < high" if "low < high" for g :: nat and low high :: int
  proof -
    from that have "int g mod (high - low) < high - low"
      by (intro pos_mod_bound) simp
    then show ?thesis by linarith
  qed
  then show ?thesis
    by (simp add: randint_ok_def example_generator_def)
qed

lemma groupby_keys_distinct: "distinct (groupby_keys df c)"
  by (simp add: groupby_keys_def)

lemma groupby_keys_set: "set (groupby_keys df c) = patient_ids df c"
  by (force simp: groupby_keys_def patient_ids_def List.map_filter_def)

lemma unique_patients_index:
  "map fst (patient_with_labels df pc lc) = groupby_keys df pc"
  by (simp add: patient_with_labels_def comp_def)

lemma permutation_length:
  assumes "permutation_ok np"
  shows "length (permutation np g n) = n"
proof -
  from assms have d: "distinct (permutation np g n)" and s: "set (permutation np g n) = {0..<n}"
    by (simp_all add: permutation_ok_def)
  from d have "length (permutation np g n) = card (set (permutation np g n))"
    by (simp add: distinct_card)
  with s show ?thesis by simp
qed

lemma train_test_split_parts:
  assumes ok: "permutation_ok np"
      and d: "distinct arr"
      and r: "train_test_split np global arr test_size random_state = Inr (tr, te)"
  shows "set tr \<inter> set te = {} \<and> set tr \<union> set te = set arr"
proof -
  define n where "n = length arr"
  define k where "k = ceil_mul np test_size n"
  from r obtain g where
    tr': "tr = map (\<lambda>i. arr ! i) (take (nat (int n - int k)) (drop k (permutation np g n)))"
    and te': "te = map (\<lambda>i. arr ! i) (take k (permutation np g n))"
    by (auto simp: train_test_split_def Let_def n_def k_def split: if_splits sum.splits)
  define p where "p = permutation np g n"
  have tr: "tr = map (\<lambda>i. arr ! i) (take (nat (int n - int k)) (drop k p))"
    and te: "te = map (\<lambda>i. arr ! i) (take k p)"
    by (simp_all add: tr' te' p_def)
  have lp: "length p = n" unfolding p_def by (rule permutation_length [OF ok])
  have dp: "distinct p" and sp: "set p = {0..<n}"
    using ok by (simp_all add: permutation_ok_def p_def)
  have "length (drop k p) \<le> nat (int n - int k)" by (simp add: lp)
  then have full: "take (nat (int n - int k)) (drop k p) = drop k p" by simp
  have inj: "inj_on (\<lambda>i. arr ! i) (set p)"
    using d by (simp add: sp n_def inj_on_nth)
  have "distinct (map (\<lambda>i. arr ! i) p)"
    using dp inj by (simp add: distinct_map)
  then have "distinct (map (\<lambda>i. arr ! i) (take k p) @ map (\<lambda>i. arr ! i) (drop k p))"
    by (simp only: map_append [symmetric] append_take_drop_id)
  then have disj: "set tr \<inter> set te = {}"
    by (auto simp: tr te full)
  have "set tr \<union> set te = set (map (\<lambda>i. arr ! i) (take k p @ drop k p))"
    unfolding tr te full by (simp only: map_append set_append Un_commute)
  also have "\<dots> = (\<lambda>i. arr ! i) ` {0..<n}" by (simp add: sp)
  also have "\<dots> = set arr"
    using nth_image [of "length arr" arr] by (simp add: n_def)
  finally show ?thesis using disj by simp
qed

lemma patient_ids_loc_isin:
  "patient_ids (loc_isin df c vals) c = patient_ids df c \<inter> set vals"
  by (auto simp: patient_ids_def loc_isin_def isin_def split: option.splits)

lemma train_test_df_patient_wise_Inr:
  assumes "train_test_df_patient_wise np global df pc lc ts seed = Inr (train_df, test_df)"
  shows "\<exists>tr te. train_test_split np global (groupby_keys df pc) ts (Some seed) = Inr (tr, te)
           \<and> train_df = loc_isin df pc tr \<and> test_df = loc_isin df pc te"
  using assms
  by (auto simp: train_test_df_patient_wise_def unique_patients_index Let_def
           split: if_splits sum.splits)

lemma filter_partition_mset:
  assumes "\<And>r. r \<in> set xs \<Longrightarrow> (P r \<or> Q r) = R r" and "\<And>r. r \<in> set xs \<Longrightarrow> \<not> (P r \<and> Q r)"
  shows "mset (filter P xs) + mset (filter Q xs) = mset (filter R xs)"
  using assms by (induction xs) auto


lemmas example_simps =
  train_test_df_patient_wise_def patient_with_labels_def groupby_keys_def List.map_filter_def
  example_columns_def example_row_def cell_def train_test_split_def
  check_random_state_def example_generator_def loc_isin_def isin_def Let_def

lemma ceiling_fraction:
  fixes t :: rat
  assumes "0 < t" and "t < 1"
  shows "\<lceil>t\<rceil> = 1"
  using assms by (intro ceiling_unique) simp_all

lemma example_split:
  "train_test_df_patient_wise example_generator g example_df ''Subject ID'' ''Tissue'' (1/2) 1234
     = Inr (example_train, example_test)"
  by (simp add: example_simps example_df_def example_train_def example_test_def)

lemma example_split_null:
  "train_test_df_patient_wise example_generator 0 example_df_null ''Subject ID'' ''Tissue'' (1/2) 1234
     = Inr (example_null_train, example_null_test)"
  by (simp add: example_simps example_df_null_def example_null_train_def example_null_test_def)

lemma example_row_neq:
  "example_row ''S3'' None ''Skin'' \<noteq> example_row ''S1'' (Some ''P1'') ''Lung''"
  "example_row ''S3'' None ''Skin'' \<noteq> example_row ''S2'' (Some ''P2'') ''Skin''"
  by (auto simp: example_row_def fun_eq_iff)

lemma groupby_keys_column:
  "groupby_keys df c = sort (remdups (map the (filter (\<lambda>v. v \<noteq> None) (column_of df c))))"
  by (simp add: groupby_keys_def column_of_def List.map_filter_def filter_map comp_def)

lemma groupby_keys_cong:
  assumes "column_of df' c = column_of df c"
  shows "groupby_keys df' c = groupby_keys df c"
  by (simp only: groupby_keys_column assms)

lemma column_of_loc_isin:
  "column_of (loc_isin df c vals) c = filter (\<lambda>v. isin v vals) (column_of df c)"
  by (simp add: column_of_def loc_isin_def filter_map comp_def)

lemma result_column_by_column:
  assumes "patient_col \<in> set (columns df)" and "label_col \<in> set (columns df)"
  shows "result_column patient_col
           (train_test_df_patient_wise np global df patient_col label_col test_size seed)
         = (case train_test_split np global (groupby_keys df patient_col)
                   test_size (Some seed) of
              Inl e \<Rightarrow> Inl e
            | Inr (tr, te) \<Rightarrow>
                Inr (filter (\<lambda>v. isin v tr) (column_of df patient_col),
                     filter (\<lambda>v. isin v te) (column_of df patient_col)))"
  using assms
  by (simp add: result_column_def train_test_df_patient_wise_def unique_patients_index
      column_of_loc_isin split: sum.splits)

lemma length_groupby_keys: "length (groupby_keys df c) = card (patient_ids df c)"
  using distinct_card [OF groupby_keys_distinct [of df c]] by (simp add: groupby_keys_set)

lemma train_test_df_patient_wise_error_iff:
  assumes "patient_col \<in> set (columns df)" and "label_col \<in> set (columns df)"
      and "0 < test_size" and "test_size < 1"
  shows "(train_test_df_patient_wise np global df patient_col label_col test_size seed
            = Inl ValueError)
         = (ceil_mul np test_size (card (patient_ids df patient_col))
              = card (patient_ids df patient_col)
            \<or> seed < 0 \<or> 2 ^ 32 \<le> seed)"
  using assms
  by (auto simp: train_test_df_patient_wise_def unique_patients_index train_test_split_def
      check_random_state_def Let_def length_groupby_keys split: sum.splits)

lemma train_test_df_patient_wise_returns_iff:
  assumes "patient_col \<in> set (columns df)" and "label_col \<in> set (columns df)"
      and "0 < test_size" and "test_size < 1"
  shows "(\<exists>train_df test_df.
            train_test_df_patient_wise np global df patient_col label_col test_size seed
              = Inr (train_df, test_df))
         = (\<not> (ceil_mul np test_size (card (patient_ids df patient_col))
                 = card (patient_ids df patient_col)
               \<or> seed < 0 \<or> 2 ^ 32 \<le> seed))"
  using assms
  by (auto simp: train_test_df_patient_wise_def unique_patients_index train_test_split_def
      check_random_state_def Let_def length_groupby_keys split: sum.splits)

lemma too_few_patients:
  assumes "ceil_mul_ok np" and "0 < test_size" and "test_size < 1" and "n \<le> 1"
  shows "ceil_mul np test_size n = n"
proof (cases "n = 0")
  case True
  with assms(1-3) show ?thesis by (simp add: ceil_mul_ok_def)
next
  case False
  with assms(4) have "n = 1" by simp
  with assms(1-3) show ?thesis by (simp add: ceil_mul_ok_def)
qed

lemma example_generator_ceil_mul_ok: "ceil_mul_ok example_generator"
proof -
  have "nat \<lceil>t\<rceil> = Suc 0" if "0 < t" "t < 1" for t :: rat
    using ceiling_fraction [OF that] by simp
  then show ?thesis by (simp add: ceil_mul_ok_def example_generator_def)
qed


lemma split_rows_mset:
  assumes "permutation_ok np"
      and "train_test_df_patient_wise np global dataset_df patient_col label_col test_size seed
             = Inr (train_df, test_df)"
  shows "mset (rows train_df) + mset (rows test_df)
           = mset (filter (\<lambda>r. cell r patient_col \<noteq> None) (rows dataset_df))"
proof -
  from train_test_df_patient_wise_Inr [OF assms(2)] obtain tr te where
    s: "train_test_split np global (groupby_keys dataset_df patient_col) test_size (Some seed)
          = Inr (tr, te)"
    and t: "train_df = loc_isin dataset_df patient_col tr"
           "test_df = loc_isin dataset_df patient_col te"
    by blast
  from train_test_split_parts [OF assms(1) groupby_keys_distinct s]
  have disj: "set tr \<inter> set te = {}"
    and un: "set tr \<union> set te = patient_ids dataset_df patient_col"
    by (simp_all add: groupby_keys_set)
  have a: "(isin (cell r patient_col) tr \<or> isin (cell r patient_col) te)
             = (cell r patient_col \<noteq> None)" if "r \<in> set (rows dataset_df)" for r
  proof (cases "cell r patient_col")
    case None
    then show ?thesis by (simp add: isin_def)
  next
    case (Some p)
    with that have "p \<in> patient_ids dataset_df patient_col"
      by (auto simp: patient_ids_def)
    with un have "p \<in> set tr \<or> p \<in> set te" by blast
    with Some show ?thesis by (simp add: isin_def)
  qed
  have b: "\<not> (isin (cell r patient_col) tr \<and> isin (cell r patient_col) te)" for r
    using disj by (auto simp: isin_def split: option.splits)
  have "mset (filter (\<lambda>r. isin (cell r patient_col) tr) (rows dataset_df))
          + mset (filter (\<lambda>r. isin (cell r patient_col) te) (rows dataset_df))
        = mset (filter (\<lambda>r. cell r patient_col \<noteq> None) (rows dataset_df))"
    by (rule filter_partition_mset) (use a b in blast)+
  then show ?thesis
    by (simp add: t loc_isin_def)
qed


section \<open>Disjoint patient sets\<close>

text \<open>
  C1. Whenever \<open>train_test_df_patient_wise\<close> returns two tables, no patient
  identifier occurs in a row of the train table and also in a row of the test table.
  The generator is assumed to return permutations.
\<close>

theorem patient_sets_disjoint:
  assumes "permutation_ok np"
      and "train_test_df_patient_wise np global dataset_df patient_col label_col test_size seed
             = Inr (train_df, test_df)"
  shows "patient_ids train_df patient_col \<inter> patient_ids test_df patient_col = {}"
proof -
  from train_test_df_patient_wise_Inr [OF assms(2)] obtain tr te where
    s: "train_test_split np global (groupby_keys dataset_df patient_col) test_size (Some seed)
          = Inr (tr, te)"
    and t: "train_df = loc_isin dataset_df patient_col tr"
           "test_df = loc_isin dataset_df patient_col te"
    by blast
  from train_test_split_parts [OF assms(1) groupby_keys_distinct s]
  have "set tr \<inter> set te = {}" by simp
  then show ?thesis by (auto simp: t patient_ids_loc_isin)
qed


theorem patient_sets_disjoint_witness:
  "permutation_ok example_generator
   \<and> train_test_df_patient_wise example_generator 0 example_df ''Subject ID'' ''Tissue''
         (1/2) 1234 = Inr (example_train, example_test)
   \<and> patient_ids example_train ''Subject ID'' \<inter> patient_ids example_test ''Subject ID'' = {}"
  using patient_sets_disjoint [OF example_generator_permutation_ok example_split [of 0]]
    example_generator_permutation_ok example_split [of 0]
  by simp

section \<open>Coverage of the input rows\<close>

text \<open>
  C2, as the code has it. The rows of the two returned tables together are exactly
  the input rows whose patient cell is not null, each once: such a row is in exactly
  one table, and a row with a null patient cell is in neither.
\<close>

theorem rows_partition_nonnull:
  assumes "permutation_ok np"
      and "train_test_df_patient_wise np global dataset_df patient_col label_col test_size seed
             = Inr (train_df, test_df)"
  shows "mset (rows train_df) + mset (rows test_df)
           = mset (filter (\<lambda>r. cell r patient_col \<noteq> None) (rows dataset_df))"
  using assms by (rule split_rows_mset)

theorem rows_partition_nonnull_witness:
  "permutation_ok example_generator
   \<and> train_test_df_patient_wise example_generator 0 example_df_null ''Subject ID'' ''Tissue''
         (1/2) 1234 = Inr (example_null_train, example_null_test)
   \<and> mset (rows example_null_train) + mset (rows example_null_test)
       = mset (filter (\<lambda>r. cell r ''Subject ID'' \<noteq> None) (rows example_df_null))"
  using rows_partition_nonnull [OF example_generator_permutation_ok example_split_null]
    example_generator_permutation_ok example_split_null
  by simp

text \<open>
  C2 as stated fails: the third row of \<open>example_df_null\<close> has a null patient cell and
  is in neither returned table.
\<close>

theorem rows_partition_counterexample:
  "train_test_df_patient_wise example_generator 0 example_df_null ''Subject ID'' ''Tissue''
      (1/2) 1234 = Inr (example_null_train, example_null_test)
   \<and> example_row ''S3'' None ''Skin'' \<in> set (rows example_df_null)
   \<and> example_row ''S3'' None ''Skin'' \<notin> set (rows example_null_train)
   \<and> example_row ''S3'' None ''Skin'' \<notin> set (rows example_null_test)"
proof -
  have "example_row ''S3'' None ''Skin'' \<in> set (rows example_df_null)"
    by (simp add: example_df_null_def)
  moreover have "example_row ''S3'' None ''Skin'' \<notin> set (rows example_null_train)"
    using example_row_neq by (simp add: example_null_train_def)
  moreover have "example_row ''S3'' None ''Skin'' \<notin> set (rows example_null_test)"
    using example_row_neq by (simp add: example_null_test_def)
  ultimately show ?thesis
    using example_split_null by blast
qed

section \<open>Determinism in the seed\<close>

text \<open>
  C3. The result of \<open>train_test_df_patient_wise\<close> is a function of its arguments
  alone: two runs with the same table, columns, fraction and seed return the same
  tables (or raise the same error), whatever the state of the process-wide generator
  at each run.
\<close>

theorem split_ignores_global_generator:
  "train_test_df_patient_wise np global1 dataset_df patient_col label_col test_size seed
     = train_test_df_patient_wise np global2 dataset_df patient_col label_col test_size seed"
  by (simp add: train_test_df_patient_wise_def train_test_split_def check_random_state_def
      Let_def)

theorem split_ignores_global_generator_witness:
  "train_test_df_patient_wise example_generator 0 example_df ''Subject ID'' ''Tissue'' (1/2) 1234
     = train_test_df_patient_wise example_generator 7 example_df ''Subject ID'' ''Tissue''
         (1/2) 1234
   \<and> train_test_df_patient_wise example_generator 7 example_df ''Subject ID'' ''Tissue''
         (1/2) 1234 = Inr (example_train, example_test)"
  using split_ignores_global_generator
    [of example_generator 0 example_df "''Subject ID''" "''Tissue''" "1/2" 1234 7]
    example_split [of 0]
  by simp

section \<open>No stratification, no fallback\<close>

text \<open>
  C4, as the code has it. With both columns present and a fraction strictly between
  0 and 1, the split is a plain seeded split of the patient identifiers. The patient
  assignment is the same for any table with the same patient column, whatever its
  labels and whichever column is named as the label column. There is no fallback: the
  call raises \<open>ValueError\<close> exactly when the train part would be empty, that is when
  \<open>ceil(test_size * n)\<close>, computed in floating point, is the number \<open>n\<close> of patients,
  or the seed is outside \<open>[0, 2**32 - 1]\<close>; under the float contract this includes
  every table with at most one patient. When the call returns, the patient sets of the
  two tables are disjoint and together are the patients of the input.
\<close>

theorem plain_split_no_fallback:
  assumes "permutation_ok np"
      and "patient_col \<in> set (columns dataset_df)"
      and "label_col \<in> set (columns dataset_df)"
      and "0 < test_size" and "test_size < 1"
  shows "(\<forall>df' label_col'.
            patient_col \<in> set (columns df') \<and> label_col' \<in> set (columns df')
            \<and> column_of df' patient_col = column_of dataset_df patient_col
            \<longrightarrow> result_column patient_col
                  (train_test_df_patient_wise np global df' patient_col label_col' test_size seed)
                = result_column patient_col
                  (train_test_df_patient_wise np global dataset_df patient_col label_col
                     test_size seed))
       \<and> ((train_test_df_patient_wise np global dataset_df patient_col label_col test_size seed
              = Inl ValueError)
            = (ceil_mul np test_size (card (patient_ids dataset_df patient_col))
                 = card (patient_ids dataset_df patient_col)
               \<or> seed < 0 \<or> 2 ^ 32 \<le> seed))
       \<and> ((\<exists>train_df test_df.
              train_test_df_patient_wise np global dataset_df patient_col label_col test_size seed
                = Inr (train_df, test_df))
            = (\<not> (ceil_mul np test_size (card (patient_ids dataset_df patient_col))
                    = card (patient_ids dataset_df patient_col)
                  \<or> seed < 0 \<or> 2 ^ 32 \<le> seed)))
       \<and> (ceil_mul_ok np \<and> card (patient_ids dataset_df patient_col) \<le> 1
            \<longrightarrow> train_test_df_patient_wise np global dataset_df patient_col label_col
                  test_size seed = Inl ValueError)
       \<and> (\<forall>train_df test_df.
            train_test_df_patient_wise np global dataset_df patient_col label_col test_size seed
              = Inr (train_df, test_df)
            \<longrightarrow> patient_ids train_df patient_col \<inter> patient_ids test_df patient_col = {}
              \<and> patient_ids train_df patient_col \<union> patient_ids test_df patient_col
                  = patient_ids dataset_df patient_col)"
proof (intro conjI allI impI)
  fix df' label_col'
  assume a: "patient_col \<in> set (columns df') \<and> label_col' \<in> set (columns df')
    \<and> column_of df' patient_col = column_of dataset_df patient_col"
  then have c: "column_of df' patient_col = column_of dataset_df patient_col"
    and c1: "patient_col \<in> set (columns df')" and c2: "label_col' \<in> set (columns df')"
    by simp_all
  have g: "groupby_keys df' patient_col = groupby_keys dataset_df patient_col"
    by (rule groupby_keys_cong [OF c])
  show "result_column patient_col
      (train_test_df_patient_wise np global df' patient_col label_col' test_size seed)
    = result_column patient_col
      (train_test_df_patient_wise np global dataset_df patient_col label_col test_size seed)"
    by (simp only: result_column_by_column [OF c1 c2] result_column_by_column [OF assms(2,3)] g c)
next
  show "(train_test_df_patient_wise np global dataset_df patient_col label_col test_size seed
           = Inl ValueError)
        = (ceil_mul np test_size (card (patient_ids dataset_df patient_col))
             = card (patient_ids dataset_df patient_col)
           \<or> seed < 0 \<or> 2 ^ 32 \<le> seed)"
    by (rule train_test_df_patient_wise_error_iff [OF assms(2-5)])
next
  show "(\<exists>train_df test_df.
           train_test_df_patient_wise np global dataset_df patient_col label_col test_size seed
             = Inr (train_df, test_df))
        = (\<not> (ceil_mul np test_size (card (patient_ids dataset_df patient_col))
                = card (patient_ids dataset_df patient_col)
              \<or> seed < 0 \<or> 2 ^ 32 \<le> seed))"
    by (rule train_test_df_patient_wise_returns_iff [OF assms(2-5)])
next
  assume "ceil_mul_ok np \<and> card (patient_ids dataset_df patient_col) \<le> 1"
  then have "ceil_mul np test_size (card (patient_ids dataset_df patient_col))
               = card (patient_ids dataset_df patient_col)"
    using too_few_patients [OF _ assms(4,5)] by blast
  then show "train_test_df_patient_wise np global dataset_df patient_col label_col test_size seed
          = Inl ValueError"
    by (simp add: train_test_df_patient_wise_error_iff [OF assms(2-5)])
next
  fix train_df test_df
  assume r: "train_test_df_patient_wise np global dataset_df patient_col label_col test_size seed
    = Inr (train_df, test_df)"
  from train_test_df_patient_wise_Inr [OF r] obtain tr te where
    s: "train_test_split np global (groupby_keys dataset_df patient_col) test_size (Some seed)
          = Inr (tr, te)"
    and t: "train_df = loc_isin dataset_df patient_col tr"
           "test_df = loc_isin dataset_df patient_col te"
    by blast
  from train_test_split_parts [OF assms(1) groupby_keys_distinct s]
  have p: "set tr \<inter> set te = {}" "set tr \<union> set te = patient_ids dataset_df patient_col"
    by (simp_all add: groupby_keys_set)
  from p show "patient_ids train_df patient_col \<inter> patient_ids test_df patient_col = {}"
    by (auto simp: t patient_ids_loc_isin)
  from p show "patient_ids train_df patient_col \<union> patient_ids test_df patient_col
                  = patient_ids dataset_df patient_col"
    by (auto simp: t patient_ids_loc_isin)
qed

theorem plain_split_no_fallback_witness:
  "permutation_ok example_generator
   \<and> ''Subject ID'' \<in> set (columns example_df) \<and> ''Tissue'' \<in> set (columns example_df)
   \<and> (0::rat) < 1/2 \<and> (1/2::rat) < 1
   \<and> train_test_df_patient_wise example_generator 0 example_df ''Subject ID'' ''Tissue''
        (1/2) 1234 \<noteq> Inl ValueError
   \<and> train_test_df_patient_wise example_generator 0 example_df ''Subject ID'' ''Tissue''
        (1/2) (-1) = Inl ValueError
   \<and> patient_ids example_train ''Subject ID'' \<inter> patient_ids example_test ''Subject ID'' = {}
   \<and> patient_ids example_train ''Subject ID'' \<union> patient_ids example_test ''Subject ID''
       = patient_ids example_df ''Subject ID''"
proof -
  have c: "''Subject ID'' \<in> set (columns example_df)" "''Tissue'' \<in> set (columns example_df)"
    by (simp_all add: example_df_def example_columns_def)
  have t: "(0::rat) < 1/2" "(1/2::rat) < 1" by simp_all
  note th = plain_split_no_fallback [OF example_generator_permutation_ok c t]
  from th [of 0 1234]
  have "\<forall>train_df test_df.
          train_test_df_patient_wise example_generator 0 example_df ''Subject ID'' ''Tissue''
            (1/2) 1234 = Inr (train_df, test_df)
          \<longrightarrow> patient_ids train_df ''Subject ID'' \<inter> patient_ids test_df ''Subject ID'' = {}
            \<and> patient_ids train_df ''Subject ID'' \<union> patient_ids test_df ''Subject ID''
                = patient_ids example_df ''Subject ID''"
    by blast
  with example_split [of 0] have
    p: "patient_ids example_train ''Subject ID'' \<inter> patient_ids example_test ''Subject ID'' = {}
     \<and> patient_ids example_train ''Subject ID'' \<union> patient_ids example_test ''Subject ID''
         = patient_ids example_df ''Subject ID''"
    by blast
  from th [of 0 "-1"]
  have "(train_test_df_patient_wise example_generator 0 example_df ''Subject ID'' ''Tissue''
           (1/2) (-1) = Inl ValueError)
        = (ceil_mul example_generator (1/2) (card (patient_ids example_df ''Subject ID''))
             = card (patient_ids example_df ''Subject ID'')
           \<or> (-1::int) < 0 \<or> 2 ^ 32 \<le> (-1::int))"
    by blast
  then have e: "train_test_df_patient_wise example_generator 0 example_df ''Subject ID''
      ''Tissue'' (1/2) (-1) = Inl ValueError"
    by simp
  have n: "train_test_df_patient_wise example_generator 0 example_df ''Subject ID'' ''Tissue''
        (1/2) 1234 \<noteq> Inl ValueError"
    by (simp add: example_split)
  from example_generator_permutation_ok c t p e n show ?thesis by simp
qed

text \<open>
  C4 as stated fails: with a single patient the call raises \<open>ValueError\<close>; no other
  split is attempted.
\<close>

theorem plain_split_counterexample:
  "train_test_df_patient_wise example_generator 0 example_df_single ''Subject ID'' ''Tissue''
      (1/2) 1234 = Inl ValueError"
  using ceiling_fraction [of "1 / 2"]
  by (simp add: example_simps example_df_single_def)

section \<open>The filename convention\<close>

lemma split_chr_nonempty: "split_chr sep s \<noteq> []"
  by (induction s) (auto split: list.splits)

lemma hd_split_chr: "hd (split_chr sep s) = takeWhile (\<lambda>c. c \<noteq> sep) s"
  using split_chr_nonempty [of sep]
  by (induction s) (auto split: list.splits)

lemma sample_id_of_takeWhile: "sample_id_of f = takeWhile (\<lambda>c. c \<noteq> CHR ''_'') f"
  by (simp add: sample_id_of_def hd_split_chr)


text \<open>
  C6, as the code has it. The sample id derived from a tile filename built from the
  orchestrator's prefix is the slide's base name exactly when that name contains no
  \<open>_\<close>; \<open>rest\<close> is whatever the tiler appends to the prefix.
\<close>

theorem sample_id_round_trip:
  "(sample_id_of (tile_filename_of slide_name rest) = slide_name)
     = (CHR ''_'' \<notin> set slide_name)"
proof (cases "CHR ''_'' \<in> set slide_name")
  case True
  then have "takeWhile (\<lambda>c. c \<noteq> CHR ''_'') (slide_name @ ''_'' @ rest)
               = takeWhile (\<lambda>c. c \<noteq> CHR ''_'') slide_name"
    by (simp add: takeWhile_append1)
  moreover from True have "takeWhile (\<lambda>c. c \<noteq> CHR ''_'') slide_name \<noteq> slide_name"
    by (auto simp: takeWhile_eq_all_conv)
  ultimately show ?thesis
    using True by (simp add: sample_id_of_takeWhile tile_filename_of_def tile_prefix_def)
next
  case False
  then have "takeWhile (\<lambda>c. c \<noteq> CHR ''_'') (slide_name @ ''_'' @ rest) = slide_name"
    by (subst takeWhile_append2) auto
  then show ?thesis
    using False by (simp add: sample_id_of_takeWhile tile_filename_of_def tile_prefix_def)
qed

theorem sample_id_round_trip_witness:
  "CHR ''_'' \<notin> set ''GTEX-1117F-0126''
   \<and> sample_id_of (tile_filename_of ''GTEX-1117F-0126'' ''tile_0_level2_0-0-512-512.png'')
       = ''GTEX-1117F-0126''"
  using sample_id_round_trip [of "''GTEX-1117F-0126''" "''tile_0_level2_0-0-512-512.png''"]
  by simp


text \<open>
  C6 as stated fails for a slide name that contains the separator: the derived
  sample id of a tile of slide \<open>GTEX_1\<close> is \<open>GTEX\<close>.
\<close>

theorem sample_id_round_trip_counterexample:
  "sample_id_of (tile_filename_of ''GTEX_1'' ''0.png'') = ''GTEX''
   \<and> sample_id_of (tile_filename_of ''GTEX_1'' ''0.png'') \<noteq> ''GTEX_1''"
  by (simp add: sample_id_of_def tile_filename_of_def tile_prefix_def)


section \<open>The retriever\<close>

lemma download_present:
  assumes "sid @ ''.svs'' \<in> listdir w"
  shows "download_wsi_gtex np net resolve w (sid # ids) = download_wsi_gtex np net resolve w ids"
  using assms by simp

lemma download_raises:
  assumes "sid @ ''.svs'' \<notin> listdir w" and "net (URL_ROOT @ ''/'' @ sid) = None"
  shows "download_wsi_gtex np net resolve w (sid # ids)
           = (w\<lparr>trace := trace w @ [Get (URL_ROOT @ ''/'' @ sid)]\<rparr>, Some ConnectionError)"
  using assms by (simp add: Let_def)

lemma download_open_raises:
  assumes "sid @ ''.svs'' \<notin> listdir w" and "net (URL_ROOT @ ''/'' @ sid) = Some content"
      and "resolve (sid @ ''.svs'') = None"
  shows "download_wsi_gtex np net resolve w (sid # ids)
           = (w\<lparr>trace := trace w @ [Get (URL_ROOT @ ''/'' @ sid)]\<rparr>, Some OSError)"
  using assms by (simp add: Let_def)

lemma download_fetches:
  assumes "sid @ ''.svs'' \<notin> listdir w" and "net (URL_ROOT @ ''/'' @ sid) = Some content"
      and "resolve (sid @ ''.svs'') = Some out"
  shows "download_wsi_gtex np net resolve w (sid # ids)
           = download_wsi_gtex np net resolve
               (w\<lparr>files := (files w)(out \<mapsto> content),
                  rng := snd (randint np (rng w) 60 100),
                  trace := trace w @ [Get (URL_ROOT @ ''/'' @ sid), Write out content,
                                       Sleep (fst (randint np (rng w) 60 100))]\<rparr>) ids"
  using assms by (simp add: Let_def split_def)

text \<open>
  One iteration that is not skipped either ends the run, adding one request to the
  trace, or goes on from a world with one more file written and three more events.
\<close>

lemma download_step:
  assumes "sid @ ''.svs'' \<notin> listdir w"
  obtains (stop) e where
      "\<And>ids. download_wsi_gtex np net resolve w (sid # ids)
          = (w\<lparr>trace := trace w @ [Get (URL_ROOT @ ''/'' @ sid)]\<rparr>, Some e)"
    | (go) content out where
      "resolve (sid @ ''.svs'') = Some out"
      "\<And>ids. download_wsi_gtex np net resolve w (sid # ids)
          = download_wsi_gtex np net resolve
               (w\<lparr>files := (files w)(out \<mapsto> content),
                  rng := snd (randint np (rng w) 60 100),
                  trace := trace w @ [Get (URL_ROOT @ ''/'' @ sid), Write out content,
                                       Sleep (fst (randint np (rng w) 60 100))]\<rparr>) ids"
proof (cases "net (URL_ROOT @ ''/'' @ sid)")
  case None
  show ?thesis
    by (rule stop [of ConnectionError])
       (rule download_raises [where net = net, OF assms None])
next
  case (Some content)
  show ?thesis
  proof (cases "resolve (sid @ ''.svs'')")
    case None
    show ?thesis
      by (rule stop [of OSError])
         (rule download_open_raises [where net = net and resolve = resolve, OF assms Some None])
  next
    case out: (Some out)
    show ?thesis
      by (rule go [of out content], rule out)
         (rule download_fetches [where net = net and resolve = resolve, OF assms Some out])
  qed
qed

lemma download_paced:
  assumes "randint_ok np"
  shows "\<exists>new. trace (fst (download_wsi_gtex np net resolve w ids)) = trace w @ new
           \<and> well_paced new \<and> (\<forall>d \<in> set (delays new). 60 \<le> d \<and> d < 100)"
proof (induction ids arbitrary: w)
  case Nil
  then show ?case by simp
next
  case (Cons sid ids)
  show ?case
  proof (cases "sid @ ''.svs'' \<in> listdir w")
    case True
    then show ?thesis using Cons.IH [of w] by (simp only: download_present)
  next
    case False
    from False show ?thesis
    proof (cases rule: download_step [where np = np and net = net and resolve = resolve])
      case (stop e)
      show ?thesis unfolding stop by simp
    next
      case (go content out)
      define d where "d = fst (randint np (rng w) 60 100)"
      define w3 where "w3 = w\<lparr>files := (files w)(out \<mapsto> content),
                  rng := snd (randint np (rng w) 60 100),
                  trace := trace w @ [Get (URL_ROOT @ ''/'' @ sid), Write out content, Sleep d]\<rparr>"
      from assms have r: "60 \<le> d \<and> d < 100"
        by (simp add: randint_ok_def d_def)
      from Cons.IH [of w3] obtain new where
        n: "trace (fst (download_wsi_gtex np net resolve w3 ids)) = trace w3 @ new"
           "well_paced new" "\<forall>d \<in> set (delays new). 60 \<le> d \<and> d < 100"
        by blast
      have "download_wsi_gtex np net resolve w (sid # ids)
              = download_wsi_gtex np net resolve w3 ids"
        unfolding w3_def d_def by (rule go(2))
      moreover have "trace w3 @ new
          = trace w @ ([Get (URL_ROOT @ ''/'' @ sid), Write out content, Sleep d] @ new)"
        by (simp add: w3_def)
      moreover have "well_paced ([Get (URL_ROOT @ ''/'' @ sid), Write out content, Sleep d] @ new)"
        using n(2) r by simp
      moreover have "\<forall>x \<in> set (delays ([Get (URL_ROOT @ ''/'' @ sid), Write out content, Sleep d]
                                      @ new)). 60 \<le> x \<and> x < 100"
        using n(3) r by simp
      ultimately show ?thesis using n(1) by metis
    qed
  qed
qed

text \<open>
  An id whose file is listed: no request for it and the same run as without it; and
  if no id of the list resolves to its file, no write to that file.
\<close>

lemma download_skip:
  assumes "sample_id @ ''.svs'' \<in> listdir w"
  shows "(\<exists>new. trace (fst (download_wsi_gtex np net resolve w ids)) = trace w @ new
                \<and> Get (URL_ROOT @ ''/'' @ sample_id) \<notin> set new)
         \<and> download_wsi_gtex np net resolve w ids
             = download_wsi_gtex np net resolve w (removeAll sample_id ids)"
  using assms
proof (induction ids arbitrary: w)
  case Nil
  then show ?case by simp
next
  case (Cons sid ids)
  show ?case
  proof (cases "sid @ ''.svs'' \<in> listdir w")
    case True
    have e1: "download_wsi_gtex np net resolve w (sid # ids)
                = download_wsi_gtex np net resolve w ids"
      by (rule download_present [OF True])
    have e2: "download_wsi_gtex np net resolve w (removeAll sample_id (sid # ids))
                = download_wsi_gtex np net resolve w (removeAll sample_id ids)"
      using True by simp
    show ?thesis unfolding e1 e2 by (rule Cons.IH [OF Cons.prems])
  next
    case False
    with Cons.prems have ne: "sid \<noteq> sample_id" by auto
    then have rm: "removeAll sample_id (sid # ids) = sid # removeAll sample_id ids"
      by simp
    from False show ?thesis
    proof (cases rule: download_step [where np = np and net = net and resolve = resolve])
      case (stop e)
      show ?thesis unfolding rm stop using ne by simp
    next
      case (go content out)
      define w3 where "w3 = w\<lparr>files := (files w)(out \<mapsto> content),
                  rng := snd (randint np (rng w) 60 100),
                  trace := trace w @ [Get (URL_ROOT @ ''/'' @ sid), Write out content,
                                       Sleep (fst (randint np (rng w) 60 100))]\<rparr>"
      from Cons.prems have p3: "sample_id @ ''.svs'' \<in> listdir w3"
        by (simp add: listdir_def w3_def)
      have step: "download_wsi_gtex np net resolve w (sid # ids')
                    = download_wsi_gtex np net resolve w3 ids'" for ids'
        unfolding w3_def by (rule go(2))
      from Cons.IH [OF p3] obtain new where
        i2: "trace (fst (download_wsi_gtex np net resolve w3 ids)) = trace w3 @ new"
            "Get (URL_ROOT @ ''/'' @ sample_id) \<notin> set new"
        and i3: "download_wsi_gtex np net resolve w3 ids
                   = download_wsi_gtex np net resolve w3 (removeAll sample_id ids)"
        by blast
      let ?pre = "[Get (URL_ROOT @ ''/'' @ sid), Write out content,
                   Sleep (fst (randint np (rng w) 60 100))]"
      have t: "trace w3 @ new = trace w @ (?pre @ new)"
        by (simp add: w3_def)
      have g: "Get (URL_ROOT @ ''/'' @ sample_id) \<notin> set (?pre @ new)"
        using i2(2) ne by simp
      have "\<exists>new'. trace (fst (download_wsi_gtex np net resolve w3 ids)) = trace w @ new'
                \<and> Get (URL_ROOT @ ''/'' @ sample_id) \<notin> set new'"
        using i2(1) t g by metis
      then show ?thesis
        unfolding rm step using i3 by simp
    qed
  qed
qed

lemma download_untouched:
  assumes "\<forall>s \<in> set ids. resolve (s @ ''.svs'') \<noteq> Some target"
  shows "files (fst (download_wsi_gtex np net resolve w ids)) target = files w target
         \<and> (\<exists>new. trace (fst (download_wsi_gtex np net resolve w ids)) = trace w @ new
                \<and> (\<forall>c. Write target c \<notin> set new))"
  using assms
proof (induction ids arbitrary: w)
  case Nil
  then show ?case by simp
next
  case (Cons sid ids)
  then have rest: "\<forall>s \<in> set ids. resolve (s @ ''.svs'') \<noteq> Some target"
    and this_one: "resolve (sid @ ''.svs'') \<noteq> Some target"
    by simp_all
  show ?case
  proof (cases "sid @ ''.svs'' \<in> listdir w")
    case True
    show ?thesis unfolding download_present [OF True] by (rule Cons.IH [OF rest])
  next
    case False
    from False show ?thesis
    proof (cases rule: download_step [where np = np and net = net and resolve = resolve])
      case (stop e)
      show ?thesis unfolding stop by simp
    next
      case (go content out)
      with this_one have ne: "out \<noteq> target" by auto
      define w3 where "w3 = w\<lparr>files := (files w)(out \<mapsto> content),
                  rng := snd (randint np (rng w) 60 100),
                  trace := trace w @ [Get (URL_ROOT @ ''/'' @ sid), Write out content,
                                       Sleep (fst (randint np (rng w) 60 100))]\<rparr>"
      have f3: "files w3 target = files w target"
        using ne by (simp add: w3_def)
      have step: "download_wsi_gtex np net resolve w (sid # ids)
                    = download_wsi_gtex np net resolve w3 ids"
        unfolding w3_def by (rule go(2))
      from Cons.IH [OF rest, of w3] obtain new where
        i1: "files (fst (download_wsi_gtex np net resolve w3 ids)) target = files w3 target"
        and i2: "trace (fst (download_wsi_gtex np net resolve w3 ids)) = trace w3 @ new"
                "\<forall>c. Write target c \<notin> set new"
        by blast
      let ?pre = "[Get (URL_ROOT @ ''/'' @ sid), Write out content,
                   Sleep (fst (randint np (rng w) 60 100))]"
      have t: "trace w3 @ new = trace w @ (?pre @ new)"
        by (simp add: w3_def)
      have wr: "\<forall>c. Write target c \<notin> set (?pre @ new)"
        using i2(2) ne by simp
      have "\<exists>new'. trace (fst (download_wsi_gtex np net resolve w3 ids)) = trace w @ new'
                \<and> (\<forall>c. Write target c \<notin> set new')"
        using i2(1) t wr by metis
      then show ?thesis
        unfolding step using i1 f3 by simp
    qed
  qed
qed

lemma example_run_present:
  "download_wsi_gtex example_generator example_net example_resolve example_world_present
      [''A'', ''B'']
     = (\<lparr>files = [Entry ''A.svs'' \<mapsto> ''old'',
                   Entry ''B.svs'' \<mapsto> ''bytes of https://brd.nci.nih.gov/brd/imagedownload/B''],
         rng = 6,
         trace = [Get ''https://brd.nci.nih.gov/brd/imagedownload/B'',
                  Write (Entry ''B.svs'')
                    ''bytes of https://brd.nci.nih.gov/brd/imagedownload/B'',
                  Sleep 65]\<rparr>, None)"
  by (simp add: example_generator_def example_net_def example_resolve_def
      example_world_present_def URL_ROOT_def listdir_def Let_def)

lemma example_run_empty:
  "trace (fst (download_wsi_gtex example_generator example_net example_resolve
                 example_world_empty [''A'', ''B'']))
     = [Get ''https://brd.nci.nih.gov/brd/imagedownload/A'',
        Write (Entry ''A.svs'') ''bytes of https://brd.nci.nih.gov/brd/imagedownload/A'',
        Sleep 65,
        Get ''https://brd.nci.nih.gov/brd/imagedownload/B'',
        Write (Entry ''B.svs'') ''bytes of https://brd.nci.nih.gov/brd/imagedownload/B'',
        Sleep 66]"
  by (simp add: example_generator_def example_net_def example_resolve_def
      example_world_empty_def URL_ROOT_def listdir_def Let_def)

lemma example_run_alias:
  "files (fst (download_wsi_gtex example_generator example_net example_resolve
                 example_world_alias [''a'', ''./a''])) (Entry ''a.svs'')
     = Some ''bytes of https://brd.nci.nih.gov/brd/imagedownload/./a''"
  by (simp add: example_generator_def example_net_def example_resolve_def
      example_world_alias_def URL_ROOT_def listdir_def Let_def)

text \<open>
  C7, as the code has it. If the target directory already lists \<open>{id}.svs\<close>, a run of
  \<open>download_wsi_gtex\<close> issues no request for that id, and the run is the same as the
  run on the list without that id, so no event at all, and in particular no delay and
  no write, is due to it. The contents of the file are as they were after the run,
  and nothing is written to it, provided no id of the list resolves to that file when
  its path is joined to the directory.
\<close>

theorem skip_existing:
  assumes "sample_id @ ''.svs'' \<in> listdir w"
  shows "Get (URL_ROOT @ ''/'' @ sample_id)
           \<notin> set (new_events w (fst (download_wsi_gtex np net resolve w sample_ids)))
       \<and> download_wsi_gtex np net resolve w sample_ids
           = download_wsi_gtex np net resolve w (removeAll sample_id sample_ids)
       \<and> download_wsi_gtex np net resolve w [sample_id] = (w, None)
       \<and> ((\<forall>s \<in> set (removeAll sample_id sample_ids).
               resolve (s @ ''.svs'') \<noteq> Some (Entry (sample_id @ ''.svs'')))
            \<longrightarrow> files (fst (download_wsi_gtex np net resolve w sample_ids))
                    (Entry (sample_id @ ''.svs''))
                  = files w (Entry (sample_id @ ''.svs''))
              \<and> (\<forall>c. Write (Entry (sample_id @ ''.svs'')) c
                    \<notin> set (new_events w (fst (download_wsi_gtex np net resolve w sample_ids)))))"
proof -
  from download_skip [OF assms, of np net resolve sample_ids] obtain new where
    n: "trace (fst (download_wsi_gtex np net resolve w sample_ids)) = trace w @ new"
       "Get (URL_ROOT @ ''/'' @ sample_id) \<notin> set new"
    and e: "download_wsi_gtex np net resolve w sample_ids
              = download_wsi_gtex np net resolve w (removeAll sample_id sample_ids)"
    by blast
  from n(1) have "new_events w (fst (download_wsi_gtex np net resolve w sample_ids)) = new"
    by (simp add: new_events_def)
  with n(2) have a: "Get (URL_ROOT @ ''/'' @ sample_id)
      \<notin> set (new_events w (fst (download_wsi_gtex np net resolve w sample_ids)))"
    by simp
  have b: "download_wsi_gtex np net resolve w [sample_id] = (w, None)"
    using assms by simp
  have c: "files (fst (download_wsi_gtex np net resolve w sample_ids))
               (Entry (sample_id @ ''.svs''))
             = files w (Entry (sample_id @ ''.svs''))
           \<and> (\<forall>c. Write (Entry (sample_id @ ''.svs'')) c
                 \<notin> set (new_events w (fst (download_wsi_gtex np net resolve w sample_ids))))"
    if h: "\<forall>s \<in> set (removeAll sample_id sample_ids).
             resolve (s @ ''.svs'') \<noteq> Some (Entry (sample_id @ ''.svs''))"
  proof -
    from download_untouched [OF h, of np net w] obtain new' where
      u: "files (fst (download_wsi_gtex np net resolve w (removeAll sample_id sample_ids)))
            (Entry (sample_id @ ''.svs'')) = files w (Entry (sample_id @ ''.svs''))"
         "trace (fst (download_wsi_gtex np net resolve w (removeAll sample_id sample_ids)))
            = trace w @ new'"
         "\<forall>c. Write (Entry (sample_id @ ''.svs'')) c \<notin> set new'"
      by blast
    from u(2) have "new_events w (fst (download_wsi_gtex np net resolve w
        (removeAll sample_id sample_ids))) = new'"
      by (simp add: new_events_def)
    with u(1,3) show ?thesis unfolding e by simp
  qed
  from a e b c show ?thesis by blast
qed

theorem skip_existing_witness:
  "''A'' @ ''.svs'' \<in> listdir example_world_present
   \<and> removeAll ''A'' [''A'', ''B''] = [''B'']
   \<and> example_resolve (''B'' @ ''.svs'') \<noteq> Some (Entry (''A'' @ ''.svs''))
   \<and> Get (URL_ROOT @ ''/'' @ ''A'')
       \<notin> set (new_events example_world_present
                (fst (download_wsi_gtex example_generator example_net example_resolve
                        example_world_present [''A'', ''B''])))
   \<and> files (fst (download_wsi_gtex example_generator example_net example_resolve
                    example_world_present [''A'', ''B''])) (Entry ''A.svs'') = Some ''old''
   \<and> delays (trace (fst (download_wsi_gtex example_generator example_net example_resolve
                    example_world_present [''A'', ''B'']))) = [65]"
proof -
  have h: "''A'' @ ''.svs'' \<in> listdir example_world_present"
    by (simp add: example_world_present_def listdir_def)
  have o: "\<forall>s \<in> set (removeAll ''A'' [''A'', ''B'']).
             example_resolve (s @ ''.svs'') \<noteq> Some (Entry (''A'' @ ''.svs''))"
    by (simp add: example_resolve_def)
  note r = skip_existing [OF h, of example_generator example_net example_resolve "[''A'', ''B'']"]
  from r have a: "Get (URL_ROOT @ ''/'' @ ''A'')
       \<notin> set (new_events example_world_present
                (fst (download_wsi_gtex example_generator example_net example_resolve
                        example_world_present [''A'', ''B''])))"
    by (rule conjunct1)
  from r o have b: "files (fst (download_wsi_gtex example_generator example_net example_resolve
      example_world_present [''A'', ''B''])) (Entry (''A'' @ ''.svs''))
        = files example_world_present (Entry (''A'' @ ''.svs''))"
    by blast
  have c: "files example_world_present (Entry (''A'' @ ''.svs'')) = Some ''old''"
    by (simp add: example_world_present_def)
  have d: "delays (trace (fst (download_wsi_gtex example_generator example_net example_resolve
      example_world_present [''A'', ''B'']))) = [65]"
    unfolding example_run_present by simp
  have o': "removeAll ''A'' [''A'', ''B''] = [''B'']"
    "example_resolve (''B'' @ ''.svs'') \<noteq> Some (Entry (''A'' @ ''.svs''))"
    by (simp_all add: example_resolve_def)
  from h o' a b c d show ?thesis by simp
qed

text \<open>
  C7 as stated fails when another id of the list resolves to the same file: with
  \<open>a.svs\<close> present and the ids \<open>a\<close> and \<open>./a\<close>, the name \<open>./a.svs\<close> is not in the
  listing, so it is fetched, and its write goes to the entry \<open>a.svs\<close>, whose contents
  change.
\<close>

theorem skip_existing_counterexample:
  "''a'' \<in> set [''a'', ''./a'']
   \<and> ''a'' @ ''.svs'' \<in> listdir example_world_alias
   \<and> files example_world_alias (Entry (''a'' @ ''.svs'')) = Some ''old''
   \<and> files (fst (download_wsi_gtex example_generator example_net example_resolve
                    example_world_alias [''a'', ''./a''])) (Entry (''a'' @ ''.svs''))
       = Some ''bytes of https://brd.nci.nih.gov/brd/imagedownload/./a''"
  using example_run_alias
  by (simp add: example_world_alias_def listdir_def)

text \<open>
  C8. Every delay slept during a run lies between 60 and 100, and the events of the
  run are well paced: every completed fetch is followed by such a delay before the
  next request. The generator is assumed to draw \<open>randint(low, high)\<close> from
  \<open>[low, high)\<close>.
\<close>

theorem delays_in_range:
  assumes "randint_ok np"
  shows "(\<forall>d \<in> set (delays (new_events w
                               (fst (download_wsi_gtex np net resolve w sample_ids)))).
            60 \<le> d \<and> d \<le> 100)
         \<and> well_paced (new_events w (fst (download_wsi_gtex np net resolve w sample_ids)))"
proof -
  from download_paced [OF assms, of net resolve w sample_ids] obtain new where
    n: "trace (fst (download_wsi_gtex np net resolve w sample_ids)) = trace w @ new"
       "well_paced new" "\<forall>d \<in> set (delays new). 60 \<le> d \<and> d < 100"
    by blast
  from n(1) have "new_events w (fst (download_wsi_gtex np net resolve w sample_ids)) = new"
    by (simp add: new_events_def)
  with n(2,3) show ?thesis by auto
qed

theorem delays_in_range_witness:
  "randint_ok example_generator
   \<and> delays (new_events example_world_empty
        (fst (download_wsi_gtex example_generator example_net example_resolve
                example_world_empty [''A'', ''B'']))) = [65, 66]
   \<and> well_paced (new_events example_world_empty
        (fst (download_wsi_gtex example_generator example_net example_resolve
                example_world_empty [''A'', ''B''])))"
  using delays_in_range [OF example_generator_randint_ok, of example_world_empty example_net
      example_resolve "[''A'', ''B'']"] example_generator_randint_ok
  unfolding new_events_def example_run_empty
  by (simp add: example_world_empty_def)

section \<open>The metadata join\<close>

lemma tiles_matching_row:
  "filter (\<lambda>(f, sid). cell r ''Tissue Sample ID'' = Some sid) (tiles_filenames_df listing)
     = map (\<lambda>f. (f, sample_id_of f)) (matching_tiles r listing)"
  by (simp add: tiles_filenames_df_def matching_tiles_def filter_map comp_def conj_commute)

lemma join_row_matching:
  "join_row r (tiles_filenames_df listing)
     = (if matching_tiles r listing = [] then [r(''tile_filename'' := None)]
        else map (\<lambda>f. r(''tile_filename'' \<mapsto> f)) (matching_tiles r listing))"
proof (cases "matching_tiles r listing")
  case Nil
  then show ?thesis by (simp add: join_row_def tiles_matching_row)
next
  case (Cons a as)
  then show ?thesis by (simp add: join_row_def tiles_matching_row comp_def)
qed

lemma length_join_row:
  "length (join_row r (tiles_filenames_df listing)) = max 1 (length (matching_tiles r listing))"
  by (cases "matching_tiles r listing") (simp_all add: join_row_matching)

lemma join_row_cell:
  assumes "c \<noteq> ''tile_filename''" and "x \<in> set (join_row r (tiles_filenames_df listing))"
  shows "cell x c = cell r c"
  using assms by (auto simp: join_row_matching cell_def split: if_splits)

lemma join_tiles_rows:
  assumes "join_tiles metadata_df tiles = Inr tiles_metadata"
  shows "rows tiles_metadata = concat (map (\<lambda>r. join_row r tiles) (rows metadata_df))"
  using assms by (auto simp: join_tiles_def split: if_splits)



lemma length_filter_concat_map:
  "length (filter P (concat (map g xs))) = sum_list (map (\<lambda>x. length (filter P (g x))) xs)"
  by (induction xs) simp_all



lemmas join_simps =
  split_tiles_patient_wise_def join_tiles_def join_row_def tiles_filenames_df_def
  sample_id_of_def splitext_ext_def result_column_def column_of_def

lemma sum_list_indicator_filter:
  "sum_list (map (\<lambda>x. if Q x then h x else (0::nat)) xs) = sum_list (map h (filter Q xs))"
  by (induction xs) simp_all

lemma split_tiles_Inr:
  assumes "split_tiles_patient_wise np global listing metadata_df label_col patient_col
             test_size seed = Inr (train_df, test_df)"
  shows "\<exists>tiles_metadata.
           join_tiles metadata_df (tiles_filenames_df listing) = Inr tiles_metadata
           \<and> train_test_df_patient_wise np global tiles_metadata patient_col label_col
                test_size seed = Inr (train_df, test_df)"
  using assms by (auto simp: split_tiles_patient_wise_def split: sum.splits)

lemma example_join:
  "join_tiles example_df (tiles_filenames_df example_listing) = Inr example_joined"
  by (simp add: join_simps example_df_def example_columns_def example_listing_def
      example_joined_def example_row_def cell_def)


lemma example_split_joined:
  "train_test_df_patient_wise example_generator 0 example_joined ''Subject ID'' ''Tissue''
      (1/2) 1234 = Inr (example_joined_train, example_joined_test)"
  by (simp add: example_simps example_joined_def example_joined_train_def
      example_joined_test_def)

lemma example_split_tiles:
  "split_tiles_patient_wise example_generator 0 example_listing example_df ''Tissue''
      ''Subject ID'' (1/2) 1234 = Inr (example_joined_train, example_joined_test)"
  by (simp add: split_tiles_patient_wise_def example_join example_split_joined)













text \<open>
  C9, as the code has it. When the run returns and the patient column is not
  \<open>tile_filename\<close>, a metadata row with a non-null patient cell that matches no tile
  file is in one of the output tables with a null \<open>tile_filename\<close>, a metadata row
  with a non-null patient cell that matches \<open>k\<close> tile files is there once for each of
  them, and the two tables together have one row for every unmatched and \<open>k\<close> rows
  for every \<open>k\<close>-fold matched metadata row with a non-null patient cell.
\<close>

theorem unmatched_metadata_kept:
  assumes "permutation_ok np"
      and "split_tiles_patient_wise np global listing metadata_df label_col patient_col
             test_size seed = Inr (train_df, test_df)"
      and "patient_col \<noteq> ''tile_filename''"
      and "r \<in> set (rows metadata_df)"
      and "cell r patient_col \<noteq> None"
  shows "(matching_tiles r listing = []
            \<longrightarrow> r(''tile_filename'' := None) \<in> set (rows train_df) \<union> set (rows test_df))
       \<and> (\<forall>f \<in> set (matching_tiles r listing).
            r(''tile_filename'' \<mapsto> f) \<in> set (rows train_df) \<union> set (rows test_df))
       \<and> length (rows train_df) + length (rows test_df)
           = sum_list (map (\<lambda>m. max 1 (length (matching_tiles m listing)))
                        (filter (\<lambda>m. cell m patient_col \<noteq> None) (rows metadata_df)))"
proof -
  let ?tiles = "tiles_filenames_df listing"
  from split_tiles_Inr [OF assms(2)] obtain tm where
    j: "join_tiles metadata_df ?tiles = Inr tm"
    and s: "train_test_df_patient_wise np global tm patient_col label_col test_size seed
              = Inr (train_df, test_df)"
    by blast
  have rows: "rows tm = concat (map (\<lambda>m. join_row m ?tiles) (rows metadata_df))"
    by (rule join_tiles_rows [OF j])
  have part: "mset (rows train_df) + mset (rows test_df)
                = mset (filter (\<lambda>x. cell x patient_col \<noteq> None) (rows tm))"
    by (rule split_rows_mset [OF assms(1) s])
  have emitted: "x \<in> set (rows train_df) \<union> set (rows test_df)"
    if "x \<in> set (join_row r ?tiles)" for x
  proof -
    from that assms(4) have "x \<in> set (rows tm)" by (auto simp: rows)
    moreover from join_row_cell [OF assms(3) that] assms(5)
    have "cell x patient_col \<noteq> None" by simp
    ultimately have "x \<in> set (filter (\<lambda>x. cell x patient_col \<noteq> None) (rows tm))"
      by simp
    then have "x \<in># mset (rows train_df) + mset (rows test_df)"
      by (simp only: part set_mset_mset)
    then show ?thesis by simp
  qed
  have a: "r(''tile_filename'' := None) \<in> set (rows train_df) \<union> set (rows test_df)"
    if "matching_tiles r listing = []"
    using that by (intro emitted) (simp add: join_row_matching)
  have b: "r(''tile_filename'' \<mapsto> f) \<in> set (rows train_df) \<union> set (rows test_df)"
    if "f \<in> set (matching_tiles r listing)" for f
    using that by (intro emitted) (auto simp: join_row_matching)
  have each: "length (filter (\<lambda>x. cell x patient_col \<noteq> None) (join_row m ?tiles))
                = (if cell m patient_col \<noteq> None
                   then max 1 (length (matching_tiles m listing)) else 0)" for m
  proof (cases "cell m patient_col \<noteq> None")
    case True
    then have "filter (\<lambda>x. cell x patient_col \<noteq> None) (join_row m ?tiles) = join_row m ?tiles"
      using join_row_cell [OF assms(3), of _ m listing] by (auto simp: filter_id_conv)
    with True show ?thesis by (simp add: length_join_row)
  next
    case False
    then have "filter (\<lambda>x. cell x patient_col \<noteq> None) (join_row m ?tiles) = []"
      using join_row_cell [OF assms(3), of _ m listing] by (auto simp: filter_empty_conv)
    with False show ?thesis by simp
  qed
  have "length (rows train_df) + length (rows test_df)
          = size (mset (rows train_df) + mset (rows test_df))"
    by simp
  also have "\<dots> = length (filter (\<lambda>x. cell x patient_col \<noteq> None) (rows tm))"
    by (simp only: part size_mset)
  also have "\<dots> = sum_list (map (\<lambda>m. max 1 (length (matching_tiles m listing)))
                        (filter (\<lambda>m. cell m patient_col \<noteq> None) (rows metadata_df)))"
    unfolding rows length_filter_concat_map each
    by (rule sum_list_indicator_filter)
  finally show ?thesis using a b by blast
qed

theorem unmatched_metadata_kept_witness:
  "permutation_ok example_generator
   \<and> split_tiles_patient_wise example_generator 0 example_listing example_df ''Tissue''
        ''Subject ID'' (1/2) 1234 = Inr (example_joined_train, example_joined_test)
   \<and> ''Subject ID'' \<noteq> ''tile_filename''
   \<and> example_row ''S2'' (Some ''P1'') ''Lung'' \<in> set (rows example_df)
   \<and> cell (example_row ''S2'' (Some ''P1'') ''Lung'') ''Subject ID'' \<noteq> None
   \<and> matching_tiles (example_row ''S2'' (Some ''P1'') ''Lung'') example_listing = []
   \<and> (example_row ''S2'' (Some ''P1'') ''Lung'')(''tile_filename'' := None)
        \<in> set (rows example_joined_train) \<union> set (rows example_joined_test)
   \<and> length (rows example_joined_train) + length (rows example_joined_test) = 5"
proof -
  have h: "''Subject ID'' \<noteq> ''tile_filename''"
    "example_row ''S2'' (Some ''P1'') ''Lung'' \<in> set (rows example_df)"
    "cell (example_row ''S2'' (Some ''P1'') ''Lung'') ''Subject ID'' \<noteq> None"
    by (simp_all add: example_df_def example_row_def cell_def)
  have m: "matching_tiles (example_row ''S2'' (Some ''P1'') ''Lung'') example_listing = []"
    by (simp add: matching_tiles_def example_listing_def example_row_def cell_def
        sample_id_of_def)
  note t = unmatched_metadata_kept [OF example_generator_permutation_ok example_split_tiles h]
  from t m have "(example_row ''S2'' (Some ''P1'') ''Lung'')(''tile_filename'' := None)
        \<in> set (rows example_joined_train) \<union> set (rows example_joined_test)"
    by blast
  moreover have "length (rows example_joined_train) + length (rows example_joined_test) = 5"
    by (simp add: example_joined_train_def example_joined_test_def)
  ultimately show ?thesis
    using example_generator_permutation_ok example_split_tiles h m by blast
qed


text \<open>
  C9 as stated fails for a metadata row whose patient cell is null: the row of sample
  \<open>S3\<close> matches no tile and is in neither output table.
\<close>

theorem unmatched_metadata_counterexample:
  "result_column ''Tissue Sample ID''
     (split_tiles_patient_wise example_generator 0 [''S1_0.png''] example_df_null
        ''Tissue'' ''Subject ID'' (1/2) 1234)
     = Inr ([Some ''S2''], [Some ''S1''])
   \<and> example_row ''S3'' None ''Skin'' \<in> set (rows example_df_null)
   \<and> cell (example_row ''S3'' None ''Skin'') ''Tissue Sample ID'' = Some ''S3''
   \<and> matching_tiles (example_row ''S3'' None ''Skin'') [''S1_0.png''] = []"
  by (simp add: join_simps example_simps example_df_null_def matching_tiles_def)

end
